theory Spec2Isabelle
  imports Complex_Main "HOL-Library.Sublist"
begin

section \<open>PADMapp.py: DIC risk tiers, recommendations and parameter flags\<close>

text \<open>
  A shallow embedding of the functions of \<^verbatim>\<open>PADMapp.py\<close>. Python floats are
  modelled as reals: the program only compares them (\<^verbatim>\<open><\<close>, \<^verbatim>\<open><=\<close>,
  \<^verbatim>\<open>>\<close>) and multiplies by 100 for the gauge, and a comparison of two finite floats
  is the comparison of the numbers they denote. A float literal stands for the decimal it
  is written as; NaN and the infinities are outside the model.
\<close>

subsection \<open>Python values\<close>

text \<open>
  A Python \<^verbatim>\<open>str\<close> is a sequence of Unicode code points, so it is a list of
  naturals here; \<open>ascii\<close> reads the ASCII part of a literal, and the code points beyond
  ASCII (the emoji and CJK characters of the source) are written as numbers.
\<close>

type_synonym pystr = "nat list"

definition ascii :: "string \<Rightarrow> pystr" where
  "ascii s = map of_char s"

text \<open>
  The exceptions the modelled code can meet: an index out of range, a missing dictionary
  key, and any exception raised by the external libraries (joblib, the pickled model),
  which carries the text that \<^verbatim>\<open>str(e)\<close> returns.
\<close>

datatype error = IndexError | KeyError pystr | External pystr

text \<open>\<^verbatim>\<open>str(e)\<close>; for a \<^verbatim>\<open>KeyError\<close> it is the \<^verbatim>\<open>repr\<close> of the key, a quoted
  string for the plain keys used here.\<close>

fun str_exc :: "error \<Rightarrow> pystr" where
  "str_exc IndexError = ascii ''list index out of range''"
| "str_exc (KeyError k) = [39] @ k @ [39]"
| "str_exc (External msg) = msg"

text \<open>\<^verbatim>\<open>xs[i]\<close> for a non-negative index: raises \<^verbatim>\<open>IndexError\<close> out of range.\<close>

definition list_index :: "'a list \<Rightarrow> nat \<Rightarrow> error + 'a" where
  "list_index xs i = (if i < length xs then Inr (xs ! i) else Inl IndexError)"

text \<open>
  A dictionary with string keys is an association list in insertion order.
  \<open>dict_get\<close> is \<^verbatim>\<open>d.get(k, default)\<close>, \<open>dict_index\<close> is \<^verbatim>\<open>d[k]\<close>
  (raises \<^verbatim>\<open>KeyError\<close>), \<open>dict_contains\<close> is \<^verbatim>\<open>k in d\<close>.
\<close>

type_synonym 'v dict = "(pystr \<times> 'v) list"

definition dict_get :: "'v dict \<Rightarrow> pystr \<Rightarrow> 'v \<Rightarrow> 'v" where
  "dict_get d k dflt = (case map_of d k of None \<Rightarrow> dflt | Some v \<Rightarrow> v)"

definition dict_index :: "'v dict \<Rightarrow> pystr \<Rightarrow> error + 'v" where
  "dict_index d k = (case map_of d k of None \<Rightarrow> Inl (KeyError k) | Some v \<Rightarrow> Inr v)"

definition dict_contains :: "pystr \<Rightarrow> 'v dict \<Rightarrow> bool" where
  "dict_contains k d = (map_of d k \<noteq> None)"

subsection \<open>\<^verbatim>\<open>get_risk_level\<close>\<close>

text \<open>
  \<^verbatim>\<open>
  def get_risk_level(probability, thresholds=[0.222, 0.64]):
      if probability < thresholds[0]:
          return "Low Risk", "risk-low", 0
      elif probability <= thresholds[1]:
          return "Medium Risk", "risk-medium", 1
      else:
          return "High Risk", "risk-high", 2
  \<close>
  The result is the triple (label, CSS class, category id). \<^verbatim>\<open>thresholds[1]\<close> is
  read only when the first test fails.
\<close>

definition default_thresholds :: "real list" where
  "default_thresholds = [0.222, 0.64]"

definition get_risk_level :: "real \<Rightarrow> real list \<Rightarrow> error + (pystr \<times> pystr \<times> int)" where
  "get_risk_level probability thresholds =
     (case list_index thresholds 0 of
        Inl e \<Rightarrow> Inl e
      | Inr t0 \<Rightarrow>
          if probability < t0 then Inr (ascii ''Low Risk'', ascii ''risk-low'', 0)
          else (case list_index thresholds 1 of
                  Inl e \<Rightarrow> Inl e
                | Inr t1 \<Rightarrow>
                    if probability \<le> t1 then Inr (ascii ''Medium Risk'', ascii ''risk-medium'', 1)
                    else Inr (ascii ''High Risk'', ascii ''risk-high'', 2)))"

subsection \<open>\<^verbatim>\<open>create_risk_gauge\<close>\<close>

text \<open>
  The gauge markup interpolates \<^verbatim>\<open>probability * 100\<close> (as the bar width, the marker
  position and the printed score); the three widths the function computes first are not
  used in the markup. The model returns the three widths and the interpolated percentage.
\<close>

definition create_risk_gauge :: "real \<Rightarrow> real \<times> real \<times> real \<times> real" where
  "create_risk_gauge probability =
     (let low_width = min 22.2 (probability * 100);
          medium_width = min (64 - 22.2) (max 0 (probability * 100 - 22.2));
          high_width = max 0 (probability * 100 - 64)
      in (low_width, medium_width, high_width, probability * 100))"

subsection \<open>\<^verbatim>\<open>get_clinical_recommendations\<close>\<close>

text \<open>
  The values of a recommendation bundle are strings (\<^verbatim>\<open>title\<close>, \<^verbatim>\<open>color\<close>) or
  lists of strings (\<^verbatim>\<open>recommendations\<close>, \<^verbatim>\<open>actions\<close>).
\<close>

datatype pyval = Str pystr | StrList "pystr list"

type_synonym rec_bundle = "pyval dict"

text \<open>The dictionary literal of the function, keyed by risk level.\<close>

definition recommendations :: "rec_bundle dict" where
  "recommendations =
     [(ascii ''Low Risk'',
        [(ascii ''title'', Str ([128994] @ ascii '' Low Risk Clinical Recommendations'')),
         (ascii ''color'', Str (ascii ''#28a745'')),
         (ascii ''recommendations'', StrList
            [[128202] @ ascii '' **Continue routine clinical monitoring**''])]),
      (ascii ''Medium Risk'',
        [(ascii ''title'', Str ([128993] @ ascii '' Medium Risk Clinical Recommendations'')),
         (ascii ''color'', Str (ascii ''#ffc107'')),
         (ascii ''recommendations'', StrList
            [[128202] @ ascii '' **Increase monitoring frequency**'',
             [129658] @ ascii '' **Consider fibrin degradation products (FDP), antithrombin III''
               @ [31561, 30340, 30417, 27979] @ ascii ''**''])]),
      (ascii ''High Risk'',
        [(ascii ''title'', Str ([128308] @ ascii '' High Risk Clinical Recommendations'')),
         (ascii ''color'', Str (ascii ''#dc3545'')),
         (ascii ''recommendations'', StrList
            [[128680] @ ascii '' **Immediate Action: Urgent consultation required**'',
             [128137] @ ascii '' **STAT repeat coagulation panel, CBC, fibrinogen, renal and liver function**'',
             [128222] @ ascii '' **Alert senior clinician, activate rapid response team if clinical deterioration**'',
             [129656] @ ascii '' **Monitor for signs of microvascular thrombosis: digital ischemia, renal failure, altered mental status**'']),
         (ascii ''actions'', StrList
            [ascii ''Monitor for Complications:'',
             [8226] @ ascii '' Acute kidney injury'',
             [8226] @ ascii '' ARDS'',
             [8226] @ ascii '' Hepatic failure'',
             [8226] @ ascii '' Cerebral ischemia''])])]"

text \<open>\<^verbatim>\<open>return recommendations.get(risk_level, {})\<close>\<close>

definition get_clinical_recommendations :: "pystr \<Rightarrow> rec_bundle" where
  "get_clinical_recommendations risk_level = dict_get recommendations risk_level []"

subsection \<open>\<^verbatim>\<open>create_parameter_display\<close>\<close>

text \<open>
  The function renders one card of markup per item of \<^verbatim>\<open>values\<close>, in the order of
  the dictionary. A card is modelled by what the loop body computes and interpolates into
  the fixed template: the parameter name, the value, the normal range, the colour and the
  status text, together with the loop's local \<^verbatim>\<open>is_abnormal\<close>; the rendering of the
  numbers to one decimal place is left out.
\<close>

record param_card =
  card_param :: pystr
  card_value :: real
  card_normal_min :: real
  card_normal_max :: real
  card_is_abnormal :: bool
  card_color :: pystr
  card_status :: pystr

definition normal_ranges :: "(real \<times> real) dict" where
  "normal_ranges =
     [(ascii ''PT'', (11.0, 13.5)),
      (ascii ''APTT'', (25.0, 35.0)),
      (ascii ''D-Dimer'', (0.0, 0.5)),
      (ascii ''MPV'', (7.5, 11.5))]"

text \<open>The body of the loop, for one item \<^verbatim>\<open>(param, value)\<close>.\<close>

definition parameter_card :: "pystr \<Rightarrow> real \<Rightarrow> param_card" where
  "parameter_card param val =
     (let (normal_min, normal_max) = dict_get normal_ranges param (0, 0);
          is_abnormal = (val < normal_min \<or> val > normal_max);
          color = (if is_abnormal then ascii ''#dc3545'' else ascii ''#28a745'');
          status = (if is_abnormal then [9888, 65039] @ ascii '' ABNORMAL''
                    else [10003] @ ascii '' NORMAL'')
      in \<lparr>card_param = param, card_value = val, card_normal_min = normal_min,
          card_normal_max = normal_max, card_is_abnormal = is_abnormal,
          card_color = color, card_status = status\<rparr>)"

definition create_parameter_display :: "real dict \<Rightarrow> param_card list" where
  "create_parameter_display values = map (\<lambda>(param, val). parameter_card param val) values"

subsection \<open>What a run displays\<close>

text \<open>
  The Streamlit calls of one run of the script, in order. Calls that only open or close
  markup (\<^verbatim>\<open><div class="card">\<close>, headers of a card) and the static sidebar, input
  widgets and footer are left out; every call that shows a message, a number, a risk level
  or a recommendation is an event. \<open>Probability_metric\<close> is the metric
  \<^verbatim>\<open>**DIC Probability**\<close> (its argument is the probability before it is printed as a
  percentage), \<open>Risk_level_metric\<close> the metric \<^verbatim>\<open>**Risk Level**\<close>,
  \<open>Risk_gauge\<close> the markup of \<^verbatim>\<open>create_risk_gauge\<close>, \<open>Risk_class_div\<close> the
  \<^verbatim>\<open><div class="{risk_class}">\<close>, \<open>Parameter_display\<close> the markup of
  \<^verbatim>\<open>create_parameter_display\<close>, and \<open>Markdown\<close> any other text.
\<close>

datatype event =
    St_error pystr
  | St_info pystr
  | Probability_metric real
  | Risk_level_metric pystr
  | Risk_gauge "real \<times> real \<times> real \<times> real"
  | Risk_class_div pystr
  | Parameter_display "param_card list"
  | Markdown pystr

text \<open>An event that shows a tier, a probability or a recommendation: everything but the
  messages of \<^verbatim>\<open>st.error\<close> and \<^verbatim>\<open>st.info\<close>.\<close>

fun risk_display :: "event \<Rightarrow> bool" where
  "risk_display (St_error m) = False"
| "risk_display (St_info m) = False"
| "risk_display e = True"

subsection \<open>\<^verbatim>\<open>load_model\<close> and \<^verbatim>\<open>predict_risk\<close>\<close>

text \<open>
  The input of the classifier is a one-row data frame: the column names, in order, each
  with its list of values. The pickled classifier is external; it is modelled by what
  \<^verbatim>\<open>calibrated_model.predict_proba(input_data)[0, 1]\<close> yields: an exception or a float.
  The loaded \<^verbatim>\<open>model_info\<close> is a dictionary, read only at the key \<^verbatim>\<open>model\<close>.
\<close>

type_synonym data_frame = "real list dict"

type_synonym classifier = "data_frame \<Rightarrow> error + real"

type_synonym model_info = "classifier dict"

text \<open>
  \<^verbatim>\<open>
  def load_model():
      try:
          model_info = joblib.load('PADM_model.pkl')
          return model_info
      except Exception as e:
          st.error(f"Error loading model: {str(e)}")
          return None
  \<close>
  The argument is the outcome of \<^verbatim>\<open>joblib.load\<close>; the result is the returned value
  and the messages shown.
\<close>

definition load_model :: "error + model_info \<Rightarrow> model_info option \<times> event list" where
  "load_model loaded =
     (case loaded of
        Inr model_info \<Rightarrow> (Some model_info, [])
      | Inl e \<Rightarrow> (None, [St_error (ascii ''Error loading model: '' @ str_exc e)]))"

text \<open>
  \<^verbatim>\<open>
  def predict_risk(model_info, input_data):
      try:
          calibrated_model = model_info['model']
          prediction_proba = calibrated_model.predict_proba(input_data)[0, 1]
          return prediction_proba
      except Exception as e:
          st.error(f"Prediction error: {str(e)}")
          return None
  \<close>
  \<open>predict_risk_try\<close> is the body of the \<^verbatim>\<open>try\<close>: the value computed or the
  exception raised.
\<close>

definition predict_risk_try :: "model_info \<Rightarrow> data_frame \<Rightarrow> error + real" where
  "predict_risk_try model_info input_data =
     (case dict_index model_info (ascii ''model'') of
        Inl e \<Rightarrow> Inl e
      | Inr calibrated_model \<Rightarrow> calibrated_model input_data)"

definition predict_risk :: "model_info \<Rightarrow> data_frame \<Rightarrow> real option \<times> event list" where
  "predict_risk model_info input_data =
     (case predict_risk_try model_info input_data of
        Inr prediction_proba \<Rightarrow> (Some prediction_proba, [])
      | Inl e \<Rightarrow> (None, [St_error (ascii ''Prediction error: '' @ str_exc e)]))"

subsection \<open>\<^verbatim>\<open>main\<close>\<close>

text \<open>
  The session state of Streamlit, initialised by the script before \<^verbatim>\<open>main\<close> runs,
  and what one run reads from outside: the four number inputs, whether each button was
  clicked, and the outcome of \<^verbatim>\<open>joblib.load\<close> (\<^verbatim>\<open>load_model\<close> is cached with
  \<^verbatim>\<open>st.cache_resource\<close>, so a later run sees the outcome of the first).
\<close>

record session_state =
  prediction_made :: bool
  input_values :: "real dict"

definition initial_session :: session_state where
  "initial_session = \<lparr>prediction_made = False, input_values = []\<rparr>"

record run_input =
  PT :: real
  D_Dimer :: real
  APTT :: real
  MPV :: real
  calculate_clicked :: bool
  demo_clicked :: bool
  joblib_load :: "error + model_info"

text \<open>
  What Python does with a bundle value: an f-string prints a string as it is and a list
  as the \<^verbatim>\<open>repr\<close> of the list; a \<^verbatim>\<open>for\<close> loop runs over the items of a list
  and over the characters of a string.
\<close>

fun format_val :: "pyval \<Rightarrow> pystr" where
  "format_val (Str s) = s"
| "format_val (StrList xs) =
     ascii ''['' @ concat (map (\<lambda>(i, x). (if i = 0 then [] else ascii '', '') @ [39] @ x @ [39])
                            (enumerate 0 xs)) @ ascii '']''"

fun items_of :: "pyval \<Rightarrow> pystr list" where
  "items_of (StrList xs) = xs"
| "items_of (Str s) = map (\<lambda>c. [c]) s"

text \<open>
  The data frame built from the stored panel:
  \<^verbatim>\<open>
  input_df = pd.DataFrame({
      'PT': [st.session_state['input_values']['PT']],
      'APTT': [st.session_state['input_values']['APTT']],
      'D-Dimer': [st.session_state['input_values']['D-Dimer']],
      'MPV': [st.session_state['input_values']['MPV']]
  })
  \<close>
\<close>

definition input_df :: "real dict \<Rightarrow> error + data_frame" where
  "input_df vals =
     (case dict_index vals (ascii ''PT'') of Inl e \<Rightarrow> Inl e | Inr pt \<Rightarrow>
      case dict_index vals (ascii ''APTT'') of Inl e \<Rightarrow> Inl e | Inr aptt \<Rightarrow>
      case dict_index vals (ascii ''D-Dimer'') of Inl e \<Rightarrow> Inl e | Inr d_dimer \<Rightarrow>
      case dict_index vals (ascii ''MPV'') of Inl e \<Rightarrow> Inl e | Inr mpv \<Rightarrow>
        Inr [(ascii ''PT'', [pt]), (ascii ''APTT'', [aptt]),
             (ascii ''D-Dimer'', [d_dimer]), (ascii ''MPV'', [mpv])])"

text \<open>
  The body of \<^verbatim>\<open>if probability is not None:\<close>: the events shown, and the exception
  that ends the run if one is raised.
\<close>

definition results_display :: "real \<Rightarrow> real dict \<Rightarrow> event list \<times> error option" where
  "results_display probability vals =
     (case get_risk_level probability default_thresholds of
        Inl e \<Rightarrow> ([], Some e)
      | Inr (risk_level, risk_class, risk_idx) \<Rightarrow>
          (let shown =
                 [Probability_metric probability,
                  Risk_level_metric
                    (if risk_level = ascii ''Low Risk'' then [128994] @ ascii '' LOW''
                     else if risk_level = ascii ''Medium Risk'' then [128993] @ ascii '' MEDIUM''
                     else [128308] @ ascii '' HIGH''),
                  Markdown (ascii ''#### '' @ [128200] @ ascii '' Risk Visualization''),
                  Risk_gauge (create_risk_gauge probability),
                  Risk_class_div risk_class,
                  Markdown (ascii ''### '' @ risk_level),
                  Markdown
                    (if risk_level = ascii ''Low Risk''
                     then ascii ''**Probability < 22.2%** - Routine monitoring recommended''
                     else if risk_level = ascii ''Medium Risk''
                     then ascii ''**Probability 22.2% - 64.0%** - Increased vigilance required''
                     else ascii ''**Probability > 64.0%** - Urgent intervention needed''),
                  Markdown (ascii ''#### '' @ [128202] @ ascii '' Parameter Analysis''),
                  Parameter_display (create_parameter_display vals)];
               recs = get_clinical_recommendations risk_level
           in if recs = [] then (shown, None)
              else
                (case dict_index recs (ascii ''title'') of
                   Inl e \<Rightarrow> (shown, Some e)
                 | Inr title \<Rightarrow>
                     (let shown = shown @
                            [Markdown (ascii ''### '' @ format_val title),
                             Markdown (ascii ''#### '' @ [128203] @ ascii '' Recommended Actions'')]
                      in case dict_index recs (ascii ''recommendations'') of
                           Inl e \<Rightarrow> (shown, Some e)
                         | Inr items \<Rightarrow>
                             (let shown = shown @
                                    map (\<lambda>rec. Markdown ([8226] @ ascii '' '' @ rec)) (items_of items)
                              in if risk_level = ascii ''High Risk''
                                      \<and> dict_contains (ascii ''actions'') recs
                                 then
                                   (case dict_index recs (ascii ''actions'') of
                                      Inl e \<Rightarrow>
                                        (shown @ [Markdown (ascii ''#### '' @ [9889]
                                                    @ ascii '' Immediate Considerations'')], Some e)
                                    | Inr actions \<Rightarrow>
                                        (shown @ [Markdown (ascii ''#### '' @ [9889]
                                                    @ ascii '' Immediate Considerations'')]
                                           @ map Markdown (items_of actions), None))
                                 else (shown, None))))))"

text \<open>The placeholder shown before any prediction was asked for.\<close>

definition placeholder_display :: "event list" where
  "placeholder_display =
     [St_info ([128072] @ ascii '' Enter patient parameters and click '' @ [39]
               @ ascii ''Calculate DIC Risk'' @ [39] @ ascii '' to see predictions''),
      Risk_gauge (create_risk_gauge 0),
      Markdown ([10] @ ascii ''            #### '' @ [127919] @ ascii '' Risk Categories''
                @ [10] @ ascii ''            - **'' @ [128994]
                @ ascii '' Low Risk**: <22.2% probability''
                @ [10] @ ascii ''            - **'' @ [128993]
                @ ascii '' Medium Risk**: 22.2%-64% probability  ''
                @ [10] @ ascii ''            - **'' @ [128308]
                @ ascii '' High Risk**: >64% probability''
                @ [10] @ ascii ''            ''),
      Markdown (ascii ''### '' @ [128203] @ ascii '' Clinical Recommendations''),
      St_info (ascii ''Risk-specific clinical guidance will appear here after calculation'')]"

text \<open>The panel that the button \<^verbatim>\<open>Use Demo Mode\<close> stores.\<close>

definition demo_panel :: "real dict" where
  "demo_panel =
     [(ascii ''PT'', 18.5), (ascii ''APTT'', 55.0), (ascii ''D-Dimer'', 3.2), (ascii ''MPV'', 12.5)]"

text \<open>
  One run of \<^verbatim>\<open>main\<close>, column by column. The block \<^verbatim>\<open>with col1:\<close> stores
  the panel of the number inputs when \<^verbatim>\<open>Calculate DIC Risk\<close> is clicked.
\<close>

definition main_col1 :: "run_input \<Rightarrow> session_state \<Rightarrow> session_state" where
  "main_col1 inp st =
     (if calculate_clicked inp
      then st\<lparr>prediction_made := True,
              input_values := [(ascii ''PT'', PT inp), (ascii ''APTT'', APTT inp),
                               (ascii ''D-Dimer'', D_Dimer inp), (ascii ''MPV'', MPV inp)]\<rparr>
      else st)"

text \<open>
  The block \<^verbatim>\<open>with col2:\<close> loads the model. When that fails it shows two messages,
  offers the demo button (which stores the demo panel when clicked) and returns from
  \<^verbatim>\<open>main\<close>. Otherwise it shows the results for the stored panel, or the placeholder.
  The result is the new session state, the events shown and the exception that ended the
  run, if any.
\<close>

definition main_col2 :: "run_input \<Rightarrow> session_state \<Rightarrow> session_state \<times> event list \<times> error option" where
  "main_col2 inp st =
     (let (model_info, shown) = load_model (joblib_load inp)
      in case model_info of
           None \<Rightarrow>
             (let shown = shown @
                    [St_error (ascii ''Failed to load the prediction model. Please ensure PADM_model.pkl exists.''),
                     St_info (ascii ''If you don'' @ [39]
                              @ ascii ''t have a trained model, you can use the demo mode below.'')];
                  st' = (if demo_clicked inp
                         then st\<lparr>prediction_made := True, input_values := demo_panel\<rparr>
                         else st)
              in (st', shown, None))
         | Some model_info \<Rightarrow>
             if prediction_made st then
               (case input_df (input_values st) of
                  Inl e \<Rightarrow> (st, shown, Some e)
                | Inr df \<Rightarrow>
                    (let (probability, shown1) = predict_risk model_info df
                     in case probability of
                          None \<Rightarrow> (st, shown @ shown1, None)
                        | Some p \<Rightarrow>
                            (let (shown2, exc) = results_display p (input_values st)
                             in (st, shown @ shown1 @ shown2, exc))))
             else (st, shown @ placeholder_display, None))"

definition main :: "run_input \<Rightarrow> session_state \<Rightarrow> session_state \<times> event list \<times> error option" where
  "main inp st = main_col2 inp (main_col1 inp st)"

section \<open>Properties\<close>

lemma ascii_simps [simp]:
  "ascii [] = []"
  "ascii (c # cs) = of_char c # ascii cs"
  by (simp_all add: ascii_def)

subsection \<open>The threshold mapper\<close>

lemma get_risk_level_default:
  "get_risk_level p default_thresholds =
     Inr (if p < 0.222 then (ascii ''Low Risk'', ascii ''risk-low'', 0)
          else if p \<le> 0.64 then (ascii ''Medium Risk'', ascii ''risk-medium'', 1)
          else (ascii ''High Risk'', ascii ''risk-high'', 2))"
  by (simp add: get_risk_level_def default_thresholds_def list_index_def)

text \<open>
  C1: with the default thresholds, a probability in \<open>[0, 0.222)\<close> is Low, one in
  \<open>[0.222, 0.64]\<close> is Medium (both cut points included) and one in \<open>(0.64, 1]\<close> is High.
\<close>

theorem get_risk_level_tiers:
  "(0 \<le> p \<and> p < 0.222 \<longrightarrow>
      get_risk_level p default_thresholds = Inr (ascii ''Low Risk'', ascii ''risk-low'', 0))
 \<and> (0.222 \<le> p \<and> p \<le> 0.64 \<longrightarrow>
      get_risk_level p default_thresholds = Inr (ascii ''Medium Risk'', ascii ''risk-medium'', 1))
 \<and> (0.64 < p \<and> p \<le> 1 \<longrightarrow>
      get_risk_level p default_thresholds = Inr (ascii ''High Risk'', ascii ''risk-high'', 2))"
  by (simp add: get_risk_level_default)

theorem get_risk_level_tiers_witness:
  "get_risk_level 0.1 default_thresholds = Inr (ascii ''Low Risk'', ascii ''risk-low'', 0)
 \<and> get_risk_level 0.222 default_thresholds = Inr (ascii ''Medium Risk'', ascii ''risk-medium'', 1)
 \<and> get_risk_level 0.64 default_thresholds = Inr (ascii ''Medium Risk'', ascii ''risk-medium'', 1)
 \<and> get_risk_level 0.9 default_thresholds = Inr (ascii ''High Risk'', ascii ''risk-high'', 2)"
  using get_risk_level_tiers [of "0.1"] get_risk_level_tiers [of "0.222"]
    get_risk_level_tiers [of "0.64"] get_risk_level_tiers [of "0.9"]
  by simp

text \<open>
  C2, as the specification states it, asks for an error on a probability outside
  \<open>[0, 1]\<close>. The function checks no range: at \<open>-0.01\<close> it returns the Low tier and at
  \<open>1.01\<close> the High tier.
\<close>

theorem get_risk_level_out_of_range_counterexample:
  "get_risk_level (- 0.01) default_thresholds = Inr (ascii ''Low Risk'', ascii ''risk-low'', 0)
 \<and> get_risk_level 1.01 default_thresholds = Inr (ascii ''High Risk'', ascii ''risk-high'', 2)"
  by (simp add: get_risk_level_default)

text \<open>
  C2, amended: for a probability outside \<open>[0, 1]\<close> the function raises nothing and
  returns a tier: Low below 0 and High above 1.
\<close>

theorem get_risk_level_out_of_range:
  "(p < 0 \<longrightarrow>
      get_risk_level p default_thresholds = Inr (ascii ''Low Risk'', ascii ''risk-low'', 0))
 \<and> (1 < p \<longrightarrow>
      get_risk_level p default_thresholds = Inr (ascii ''High Risk'', ascii ''risk-high'', 2))"
  by (simp add: get_risk_level_default)

theorem get_risk_level_out_of_range_witness:
  "get_risk_level (- 3) default_thresholds = Inr (ascii ''Low Risk'', ascii ''risk-low'', 0)
 \<and> get_risk_level 2 default_thresholds = Inr (ascii ''High Risk'', ascii ''risk-high'', 2)"
  using get_risk_level_out_of_range [of "- 3"] get_risk_level_out_of_range [of 2]
  by simp

text \<open>
  C9: the category id is monotone in the probability, and every result is one of the
  three triples that pair an id with its label and its CSS class.
\<close>

theorem get_risk_level_monotone:
  "p \<le> q \<Longrightarrow>
   \<exists>l c i l' c' i'.
      get_risk_level p default_thresholds = Inr (l, c, i)
    \<and> get_risk_level q default_thresholds = Inr (l', c', i')
    \<and> i \<le> i'
    \<and> (l, c, i) \<in> {(ascii ''Low Risk'', ascii ''risk-low'', 0),
                    (ascii ''Medium Risk'', ascii ''risk-medium'', 1),
                    (ascii ''High Risk'', ascii ''risk-high'', 2)}
    \<and> (l', c', i') \<in> {(ascii ''Low Risk'', ascii ''risk-low'', 0),
                       (ascii ''Medium Risk'', ascii ''risk-medium'', 1),
                       (ascii ''High Risk'', ascii ''risk-high'', 2)}"
  by (simp add: get_risk_level_default)

theorem get_risk_level_monotone_witness:
  "\<exists>l c i l' c' i'.
      get_risk_level 0.1 default_thresholds = Inr (l, c, i)
    \<and> get_risk_level 0.7 default_thresholds = Inr (l', c', i')
    \<and> i \<le> i'
    \<and> (l, c, i) \<in> {(ascii ''Low Risk'', ascii ''risk-low'', 0),
                    (ascii ''Medium Risk'', ascii ''risk-medium'', 1),
                    (ascii ''High Risk'', ascii ''risk-high'', 2)}
    \<and> (l', c', i') \<in> {(ascii ''Low Risk'', ascii ''risk-low'', 0),
                       (ascii ''Medium Risk'', ascii ''risk-medium'', 1),
                       (ascii ''High Risk'', ascii ''risk-high'', 2)}"
  using get_risk_level_monotone [of "0.1" "0.7"] by simp

subsection \<open>The recommendation lookup\<close>

lemmas lookup_defs =
  get_clinical_recommendations_def recommendations_def dict_get_def dict_index_def
  dict_contains_def

text \<open>
  C3: the bundle of the High tier has a non-empty list under \<^verbatim>\<open>actions\<close>, the
  bundles of the Low and Medium tiers have no such key, and each of the three bundles has
  a title and a non-empty list of recommendations.
\<close>

theorem recommendation_bundles:
  "(\<exists>acts. dict_index (get_clinical_recommendations (ascii ''High Risk'')) (ascii ''actions'')
             = Inr (StrList acts) \<and> acts \<noteq> [])
 \<and> \<not> dict_contains (ascii ''actions'') (get_clinical_recommendations (ascii ''Low Risk''))
 \<and> \<not> dict_contains (ascii ''actions'') (get_clinical_recommendations (ascii ''Medium Risk''))
 \<and> (\<exists>title items.
        dict_index (get_clinical_recommendations (ascii ''Low Risk'')) (ascii ''title'')
          = Inr (Str title)
      \<and> dict_index (get_clinical_recommendations (ascii ''Low Risk'')) (ascii ''recommendations'')
          = Inr (StrList items) \<and> items \<noteq> [])
 \<and> (\<exists>title items.
        dict_index (get_clinical_recommendations (ascii ''Medium Risk'')) (ascii ''title'')
          = Inr (Str title)
      \<and> dict_index (get_clinical_recommendations (ascii ''Medium Risk'')) (ascii ''recommendations'')
          = Inr (StrList items) \<and> items \<noteq> [])
 \<and> (\<exists>title items.
        dict_index (get_clinical_recommendations (ascii ''High Risk'')) (ascii ''title'')
          = Inr (Str title)
      \<and> dict_index (get_clinical_recommendations (ascii ''High Risk'')) (ascii ''recommendations'')
          = Inr (StrList items) \<and> items \<noteq> [])"
  by (simp add: lookup_defs)




subsection \<open>The parameter normalcy check\<close>

lemmas card_defs = parameter_card_def normal_ranges_def dict_get_def Let_def


text \<open>
  C10: a parameter name outside the table gets the default range \<open>(0, 0)\<close>, and its
  card is flagged abnormal exactly when the value is not zero; no lookup fails.
\<close>

theorem unknown_parameter_default_range:
  "param \<notin> {ascii ''PT'', ascii ''APTT'', ascii ''D-Dimer'', ascii ''MPV''} \<Longrightarrow>
   create_parameter_display [(param, v)] = [parameter_card param v]
 \<and> card_normal_min (parameter_card param v) = 0
 \<and> card_normal_max (parameter_card param v) = 0
 \<and> card_is_abnormal (parameter_card param v) = (v \<noteq> 0)"
  by (auto simp add: card_defs create_parameter_display_def)

theorem unknown_parameter_default_range_witness:
  "ascii ''INR'' \<notin> {ascii ''PT'', ascii ''APTT'', ascii ''D-Dimer'', ascii ''MPV''}
 \<and> card_is_abnormal (parameter_card (ascii ''INR'') 0) = False
 \<and> card_is_abnormal (parameter_card (ascii ''INR'') 1.2) = True
 \<and> card_normal_min (parameter_card (ascii ''INR'') 1.2) = 0
 \<and> card_normal_max (parameter_card (ascii ''INR'') 1.2) = 0"
  using unknown_parameter_default_range [of "ascii ''INR''" 0]
    unknown_parameter_default_range [of "ascii ''INR''" "1.2"]
  by simp

subsection \<open>Runs of \<^verbatim>\<open>main\<close>\<close>

lemma main_without_model:
  "joblib_load inp = Inl e \<Longrightarrow>
   main inp st =
     (if demo_clicked inp
      then (main_col1 inp st)\<lparr>prediction_made := True, input_values := demo_panel\<rparr>
      else main_col1 inp st,
      [St_error (ascii ''Error loading model: '' @ str_exc e),
       St_error (ascii ''Failed to load the prediction model. Please ensure PADM_model.pkl exists.''),
       St_info (ascii ''If you don'' @ [39]
                @ ascii ''t have a trained model, you can use the demo mode below.'')],
      None)"
  by (simp add: main_def main_col2_def load_model_def)

text \<open>
  C5: the model file is missing and the user clicks \<^verbatim>\<open>Use Demo Mode\<close>. The run does
  not raise and stores the demo panel, but it returns before any result is shown; the
  next run, with the demo panel stored and \<^verbatim>\<open>prediction_made\<close> set, finds the model
  missing again and returns at the same place. Neither run shows a tier or a
  recommendation: the demo panel never reaches \<^verbatim>\<open>get_risk_level\<close> or
  \<^verbatim>\<open>get_clinical_recommendations\<close>.
\<close>

theorem demo_mode_shows_no_result:
  "main \<lparr>PT = 12.0, D_Dimer = 0.5, APTT = 30.0, MPV = 10.0, calculate_clicked = False,
         demo_clicked = True,
         joblib_load = Inl (External (ascii ''No such file or directory''))\<rparr>
        initial_session
     = (\<lparr>prediction_made = True, input_values = demo_panel\<rparr>,
        [St_error (ascii ''Error loading model: No such file or directory''),
         St_error (ascii ''Failed to load the prediction model. Please ensure PADM_model.pkl exists.''),
         St_info (ascii ''If you don'' @ [39]
                  @ ascii ''t have a trained model, you can use the demo mode below.'')],
        None)
 \<and> main \<lparr>PT = 12.0, D_Dimer = 0.5, APTT = 30.0, MPV = 10.0, calculate_clicked = False,
         demo_clicked = False,
         joblib_load = Inl (External (ascii ''No such file or directory''))\<rparr>
        \<lparr>prediction_made = True, input_values = demo_panel\<rparr>
     = (\<lparr>prediction_made = True, input_values = demo_panel\<rparr>,
        [St_error (ascii ''Error loading model: No such file or directory''),
         St_error (ascii ''Failed to load the prediction model. Please ensure PADM_model.pkl exists.''),
         St_info (ascii ''If you don'' @ [39]
                  @ ascii ''t have a trained model, you can use the demo mode below.'')],
        None)
 \<and> list_ex risk_display
      [St_error (ascii ''Error loading model: No such file or directory''),
       St_error (ascii ''Failed to load the prediction model. Please ensure PADM_model.pkl exists.''),
       St_info (ascii ''If you don'' @ [39]
                @ ascii ''t have a trained model, you can use the demo mode below.'')] = False"
  by (simp add: main_without_model main_col1_def initial_session_def)

text \<open>
  C6: the model is loaded, a panel is stored (clicked in this run or kept from an earlier
  one) and the classifier returns 0.75 for it. Then the tier is High; the bundle of that
  tier has a title that contains \<^verbatim>\<open>High Risk\<close> and a recommendation that contains
  \<^verbatim>\<open>Urgent consultation\<close>; and the run ends without an exception and shows the High
  tier, that title and that recommendation.
\<close>

theorem high_risk_end_to_end:
  assumes "joblib_load inp = Inr model_info"
    and "prediction_made (main_col1 inp st)"
    and "input_df (input_values (main_col1 inp st)) = Inr df"
    and "predict_risk_try model_info df = Inr 0.75"
  shows "predict_risk model_info df = (Some 0.75, [])
       \<and> get_risk_level 0.75 default_thresholds
            = Inr (ascii ''High Risk'', ascii ''risk-high'', 2)
       \<and> (\<exists>title. dict_index (get_clinical_recommendations (ascii ''High Risk'')) (ascii ''title'')
                     = Inr (Str title)
                 \<and> sublist (ascii ''High Risk'') title
                 \<and> Markdown (ascii ''### '' @ title) \<in> set (fst (snd (main inp st))))
       \<and> (\<exists>items item.
              dict_index (get_clinical_recommendations (ascii ''High Risk'')) (ascii ''recommendations'')
                = Inr (StrList items)
            \<and> item \<in> set items
            \<and> sublist (ascii ''Urgent consultation'') item
            \<and> Markdown ([8226] @ ascii '' '' @ item) \<in> set (fst (snd (main inp st))))
       \<and> Risk_level_metric ([128308] @ ascii '' HIGH'') \<in> set (fst (snd (main inp st)))
       \<and> Risk_class_div (ascii ''risk-high'') \<in> set (fst (snd (main inp st)))
       \<and> fst (main inp st) = main_col1 inp st
       \<and> snd (snd (main inp st)) = None"
proof -
  have pr: "predict_risk model_info df = (Some 0.75, [])"
    using assms(4) by (simp add: predict_risk_def)
  have tier: "get_risk_level 0.75 default_thresholds
                = Inr (ascii ''High Risk'', ascii ''risk-high'', 2)"
    by (simp add: get_risk_level_default)
  have run: "main inp st =
               (main_col1 inp st,
                fst (results_display 0.75 (input_values (main_col1 inp st))),
                snd (results_display 0.75 (input_values (main_col1 inp st))))"
    using assms(1-3) pr by (simp add: main_def main_col2_def load_model_def split_beta)
  have sub1: "sublist (ascii ''High Risk'')
                ([128308] @ ascii '' High Risk Clinical Recommendations'')"
    by (simp add: sublist_Cons_right prefix_Cons)
  have sub2: "sublist (ascii ''Urgent consultation'')
                ([128680] @ ascii '' **Immediate Action: Urgent consultation required**'')"
    by (simp add: sublist_Cons_right prefix_Cons)
  have title: "dict_index (get_clinical_recommendations (ascii ''High Risk'')) (ascii ''title'')
                 = Inr (Str ([128308] @ ascii '' High Risk Clinical Recommendations''))"
    by (simp add: lookup_defs)
  have items: "\<exists>items.
      dict_index (get_clinical_recommendations (ascii ''High Risk'')) (ascii ''recommendations'')
        = Inr (StrList items)
      \<and> [128680] @ ascii '' **Immediate Action: Urgent consultation required**'' \<in> set items"
    by (simp add: lookup_defs)
  have shown: "Markdown (ascii ''### '' @ [128308] @ ascii '' High Risk Clinical Recommendations'')
                 \<in> set (fst (results_display 0.75 vals))
             \<and> Markdown ([8226] @ ascii '' '' @ [128680]
                          @ ascii '' **Immediate Action: Urgent consultation required**'')
                 \<in> set (fst (results_display 0.75 vals))
             \<and> Risk_level_metric ([128308] @ ascii '' HIGH'') \<in> set (fst (results_display 0.75 vals))
             \<and> Risk_class_div (ascii ''risk-high'') \<in> set (fst (results_display 0.75 vals))
             \<and> snd (results_display 0.75 vals) = None" for vals
    by (simp add: results_display_def get_risk_level_default lookup_defs Let_def)
  from items obtain its where its:
    "dict_index (get_clinical_recommendations (ascii ''High Risk'')) (ascii ''recommendations'')
       = Inr (StrList its)"
    "[128680] @ ascii '' **Immediate Action: Urgent consultation required**'' \<in> set its"
    by blast
  have A: "\<exists>title. dict_index (get_clinical_recommendations (ascii ''High Risk'')) (ascii ''title'')
                     = Inr (Str title)
                 \<and> sublist (ascii ''High Risk'') title
                 \<and> Markdown (ascii ''### '' @ title) \<in> set (fst (snd (main inp st)))"
    using title sub1 shown run by (metis fst_conv snd_conv)
  have B: "\<exists>items item.
              dict_index (get_clinical_recommendations (ascii ''High Risk'')) (ascii ''recommendations'')
                = Inr (StrList items)
            \<and> item \<in> set items
            \<and> sublist (ascii ''Urgent consultation'') item
            \<and> Markdown ([8226] @ ascii '' '' @ item) \<in> set (fst (snd (main inp st)))"
    using its sub2 shown run by (metis fst_conv snd_conv)
  have C: "Risk_level_metric ([128308] @ ascii '' HIGH'') \<in> set (fst (snd (main inp st)))
         \<and> Risk_class_div (ascii ''risk-high'') \<in> set (fst (snd (main inp st)))
         \<and> fst (main inp st) = main_col1 inp st
         \<and> snd (snd (main inp st)) = None"
    using shown run by simp
  show ?thesis using pr tier A B C by blast
qed

theorem high_risk_end_to_end_witness:
  "predict_risk [(ascii ''model'', \<lambda>df. Inr 0.75)]
     [(ascii ''PT'', [18.5]), (ascii ''APTT'', [55.0]), (ascii ''D-Dimer'', [3.2]),
      (ascii ''MPV'', [12.5])] = (Some 0.75, [])
 \<and> Risk_class_div (ascii ''risk-high'')
     \<in> set (fst (snd (main
          \<lparr>PT = 18.5, D_Dimer = 3.2, APTT = 55.0, MPV = 12.5, calculate_clicked = True,
           demo_clicked = False, joblib_load = Inr [(ascii ''model'', \<lambda>df. Inr 0.75)]\<rparr>
          initial_session)))
 \<and> snd (snd (main
          \<lparr>PT = 18.5, D_Dimer = 3.2, APTT = 55.0, MPV = 12.5, calculate_clicked = True,
           demo_clicked = False, joblib_load = Inr [(ascii ''model'', \<lambda>df. Inr 0.75)]\<rparr>
          initial_session)) = None"
  using high_risk_end_to_end
    [of "\<lparr>PT = 18.5, D_Dimer = 3.2, APTT = 55.0, MPV = 12.5, calculate_clicked = True,
          demo_clicked = False, joblib_load = Inr [(ascii ''model'', \<lambda>df. Inr 0.75)]\<rparr>"
        "[(ascii ''model'', \<lambda>df. Inr 0.75)]"
        initial_session
        "[(ascii ''PT'', [18.5]), (ascii ''APTT'', [55.0]), (ascii ''D-Dimer'', [3.2]),
          (ascii ''MPV'', [12.5])]"]
  by (simp add: main_col1_def input_df_def dict_index_def predict_risk_try_def)

text \<open>
  C8: the model is loaded, a panel is stored and the prediction raises (the classifier
  rejects the input, or \<^verbatim>\<open>model_info\<close> has no key \<^verbatim>\<open>model\<close>). Then
  \<^verbatim>\<open>predict_risk\<close> returns \<^verbatim>\<open>None\<close>, not a probability, together with the error
  message, and the run shows that message and nothing else: no tier, no probability and
  no recommendation.
\<close>

theorem prediction_failure_withholds_display:
  assumes "joblib_load inp = Inr model_info"
    and "prediction_made (main_col1 inp st)"
    and "input_df (input_values (main_col1 inp st)) = Inr df"
    and "predict_risk_try model_info df = Inl e"
  shows "predict_risk model_info df
           = (None, [St_error (ascii ''Prediction error: '' @ str_exc e)])
       \<and> main inp st
           = (main_col1 inp st, [St_error (ascii ''Prediction error: '' @ str_exc e)], None)
       \<and> list_ex risk_display (fst (snd (main inp st))) = False"
proof -
  have pr: "predict_risk model_info df
              = (None, [St_error (ascii ''Prediction error: '' @ str_exc e)])"
    using assms(4) by (simp add: predict_risk_def)
  have run: "main inp st
               = (main_col1 inp st, [St_error (ascii ''Prediction error: '' @ str_exc e)], None)"
    using assms(1-3) pr by (simp add: main_def main_col2_def load_model_def)
  show ?thesis using pr run by simp
qed

theorem prediction_failure_withholds_display_witness:
  "predict_risk [(ascii ''model'', \<lambda>df. Inl (External (ascii ''bad input shape'')))]
     [(ascii ''PT'', [12.0]), (ascii ''APTT'', [30.0]), (ascii ''D-Dimer'', [0.5]),
      (ascii ''MPV'', [10.0])]
     = (None, [St_error (ascii ''Prediction error: bad input shape'')])
 \<and> main \<lparr>PT = 12.0, D_Dimer = 0.5, APTT = 30.0, MPV = 10.0, calculate_clicked = True,
         demo_clicked = False,
         joblib_load = Inr [(ascii ''model'', \<lambda>df. Inl (External (ascii ''bad input shape'')))]\<rparr>
        initial_session
     = (\<lparr>prediction_made = True,
         input_values = [(ascii ''PT'', 12.0), (ascii ''APTT'', 30.0), (ascii ''D-Dimer'', 0.5),
                         (ascii ''MPV'', 10.0)]\<rparr>,
        [St_error (ascii ''Prediction error: bad input shape'')], None)"
  using prediction_failure_withholds_display
    [of "\<lparr>PT = 12.0, D_Dimer = 0.5, APTT = 30.0, MPV = 10.0, calculate_clicked = True,
          demo_clicked = False,
          joblib_load = Inr [(ascii ''model'', \<lambda>df. Inl (External (ascii ''bad input shape'')))]\<rparr>"
        "[(ascii ''model'', \<lambda>df. Inl (External (ascii ''bad input shape'')))]"
        initial_session
        "[(ascii ''PT'', [12.0]), (ascii ''APTT'', [30.0]), (ascii ''D-Dimer'', [0.5]),
          (ascii ''MPV'', [10.0])]"
        "External (ascii ''bad input shape'')"]
  by (simp add: main_col1_def input_df_def dict_index_def predict_risk_try_def initial_session_def)

end
